theory Spec2Isabelle
  imports Complex_Main
begin

section \<open>Python strings\<close>

text \<open>
  A Python \<open>str\<close> is a sequence of Unicode code points, and \<open>len\<close> counts code points.
  It is modelled as a list of code points; \<open>lit\<close> embeds an ASCII literal.
\<close>

type_synonym pystr = "nat list"

definition lit :: "string \<Rightarrow> pystr" where
  "lit s = map of_char s"

text \<open>\<open>str(n)\<close> for an integer: decimal digits, with a sign for a negative one.\<close>

fun str_of_nat :: "nat \<Rightarrow> pystr" where
  "str_of_nat n = (if n < 10 then [48 + n] else str_of_nat (n div 10) @ [48 + n mod 10])"

declare str_of_nat.simps [simp del]

definition str_of_int :: "int \<Rightarrow> pystr" where
  "str_of_int i = (if i < 0 then 45 # str_of_nat (nat (- i)) else str_of_nat (nat i))"

text \<open>\<open>sub in s\<close>: \<open>sub\<close> occurs in \<open>s\<close> as a contiguous run, compared code point by code point.\<close>

fun str_contains :: "pystr \<Rightarrow> pystr \<Rightarrow> bool" where
  "str_contains sub [] = (sub = [])"
| "str_contains sub (c # cs) = (take (length sub) (c # cs) = sub \<or> str_contains sub cs)"

text \<open>
  \<open>s.split("\n")\<close> and \<open>"\n".join(lines)\<close>; the newline is code point 10. A code point
  other than the newline goes in front of the first line of the rest; the split of the
  rest is never the empty list, so the last case is never taken.
\<close>

fun split_lines :: "pystr \<Rightarrow> pystr list" where
  "split_lines [] = [[]]"
| "split_lines (c # cs) =
     (if c = 10 then [] # split_lines cs
      else (case split_lines cs of
              l # ls \<Rightarrow> (c # l) # ls
            | [] \<Rightarrow> [[c]]))"

fun join_lines :: "pystr list \<Rightarrow> pystr" where
  "join_lines [] = []"
| "join_lines [l] = l"
| "join_lines (l # m # ls) = l @ [10] @ join_lines (m # ls)"

text \<open>
  \<open>s.split(":", 1)\<close>: at most one split, at the first colon (code point 58); the list has
  two parts when there is a colon and one part otherwise.
\<close>

definition split_colon_1 :: "pystr \<Rightarrow> pystr list" where
  "split_colon_1 s =
     (if 58 \<in> set s
      then [takeWhile (\<lambda>c. c \<noteq> 58) s, tl (dropWhile (\<lambda>c. c \<noteq> 58) s)]
      else [s])"

text \<open>
  \<open>s.strip()\<close> removes the leading and trailing code points for which \<open>str.isspace\<close>
  holds; these are the 29 white-space code points of CPython.
\<close>

definition isspace :: "nat \<Rightarrow> bool" where
  "isspace c \<longleftrightarrow>
     (9 \<le> c \<and> c \<le> 13) \<or> (28 \<le> c \<and> c \<le> 32) \<or> c = 133 \<or> c = 160 \<or> c = 5760 \<or>
     (8192 \<le> c \<and> c \<le> 8202) \<or> c = 8232 \<or> c = 8233 \<or> c = 8239 \<or> c = 8287 \<or> c = 12288"

definition strip :: "pystr \<Rightarrow> pystr" where
  "strip s = rev (dropWhile isspace (rev (dropWhile isspace s)))"

text \<open>
  The UTF-8 encoding of a code point and the encoded size of a string: what the
  specification calls the byte length of the body. The source never encodes the body;
  these two definitions follow the specification and serve for the comparison only.
\<close>

definition utf8_encode_cp :: "nat \<Rightarrow> nat list" where
  "utf8_encode_cp c =
     (if c < 128 then [c]
      else if c < 2048 then [192 + c div 64, 128 + c mod 64]
      else if c < 65536 then [224 + c div 4096, 128 + (c div 64) mod 64, 128 + c mod 64]
      else [240 + c div 262144, 128 + (c div 4096) mod 64, 128 + (c div 64) mod 64,
            128 + c mod 64])"

definition spec_utf8_size :: "pystr \<Rightarrow> nat" where
  "spec_utf8_size s = length (concat (map utf8_encode_cp s))"

section \<open>Python dicts\<close>

text \<open>
  A dict is an association list in insertion order. \<open>d[k] = v\<close> replaces the value of a
  key that is present, in place, and appends a new key at the end.
\<close>

type_synonym ('k, 'v) dict = "('k \<times> 'v) list"

definition dict_get :: "('k, 'v) dict \<Rightarrow> 'k \<Rightarrow> 'v \<Rightarrow> 'v" where
  "dict_get d k dflt = (case map_of d k of None \<Rightarrow> dflt | Some v \<Rightarrow> v)"

fun dict_set :: "('k, 'v) dict \<Rightarrow> 'k \<Rightarrow> 'v \<Rightarrow> ('k, 'v) dict" where
  "dict_set [] k v = [(k, v)]"
| "dict_set ((k', v') # d) k v =
     (if k' = k then (k', v) # d else (k', v') # dict_set d k v)"

section \<open>models/request\_models.py\<close>

text \<open>
  The exceptions of the model. \<open>JSONDecodeError\<close> is the one class that \<open>_format_body\<close>
  catches; a \<open>ValueError\<close> that is not a \<open>JSONDecodeError\<close> and a \<open>RecursionError\<close> are
  what \<open>json.loads\<close> raises besides it.
\<close>

datatype error = ValueError pystr | JSONDecodeError | RecursionError | Abort

record HttpRequest =
  "method" :: pystr
  url :: pystr
  headers :: "(pystr, pystr) dict"
  body :: "pystr option"
  timeout :: int

definition valid_methods :: "pystr list" where
  "valid_methods =
     [lit ''GET'', lit ''POST'', lit ''PUT'', lit ''DELETE'', lit ''PATCH'', lit ''HEAD'',
      lit ''OPTIONS'']"

text \<open>
  \<open>__post_init__\<close>. \<open>str.upper\<close> belongs to the Python runtime, not to this repository:
  it is the parameter \<open>str_upper\<close>. The message is "M\'etodo inv\'alido: " followed by the
  method (233 and 225 are the two accented letters).
\<close>

definition post_init :: "(pystr \<Rightarrow> pystr) \<Rightarrow> HttpRequest \<Rightarrow> error + HttpRequest" where
  "post_init str_upper self =
     (let self = self\<lparr>method := str_upper (method self)\<rparr> in
      if method self \<notin> set valid_methods
      then Inl (ValueError
                 (lit ''M'' @ [233] @ lit ''todo inv'' @ [225] @ lit ''lido: '' @ method self))
      else Inr self)"

text \<open>The generated constructor stores the fields and then runs \<open>__post_init__\<close>.\<close>

definition HttpRequest_new ::
  "(pystr \<Rightarrow> pystr) \<Rightarrow> pystr \<Rightarrow> pystr \<Rightarrow> (pystr, pystr) dict \<Rightarrow> pystr option \<Rightarrow> int
     \<Rightarrow> error + HttpRequest" where
  "HttpRequest_new str_upper m u h b t =
     post_init str_upper
       \<lparr>method = m, url = u, HttpRequest.headers = h, HttpRequest.body = b, timeout = t\<rparr>"

text \<open>
  \<open>elapsed_time\<close> and \<open>timestamp\<close> are a float and a datetime in the source; the model
  never computes with them.
\<close>

record HttpResponse =
  status_code :: int
  headers :: "(pystr, pystr) dict"
  body :: pystr
  elapsed_time :: real
  request :: HttpRequest
  timestamp :: real

definition is_success :: "HttpResponse \<Rightarrow> bool" where
  "is_success self \<longleftrightarrow> 200 \<le> status_code self \<and> status_code self < 300"

definition is_client_error :: "HttpResponse \<Rightarrow> bool" where
  "is_client_error self \<longleftrightarrow> 400 \<le> status_code self \<and> status_code self < 500"

definition is_server_error :: "HttpResponse \<Rightarrow> bool" where
  "is_server_error self \<longleftrightarrow> 500 \<le> status_code self \<and> status_code self < 600"

section \<open>display/formatters.py\<close>

text \<open>
  The console is a sink: the model returns the list of the values handed to
  \<open>console.print\<close>, in order. How the terminal library draws them is outside the model.
\<close>

datatype renderable =
    Blank
  | Text pystr
  | Panel pystr pystr pystr
  | Table "(pystr \<times> pystr) list"
  | Syntax pystr pystr

text \<open>
  \<open>Blank\<close> is \<open>console.print()\<close>, \<open>Text s\<close> is \<open>console.print(s)\<close>,
  \<open>Panel content title border_style\<close> and \<open>Syntax code lexer\<close> are the objects of the same
  names (theme and line numbering are constants of the source), and \<open>Table rows\<close> is the
  two-column table with the rows added to it.
\<close>

text \<open>The dict literal \<open>status_texts\<close> of \<open>_get_status_text\<close>, in source order.\<close>

definition status_texts :: "(int \<times> pystr) list" where
  "status_texts =
     [(200, lit ''OK''),
      (201, lit ''Created''),
      (204, lit ''No Content''),
      (301, lit ''Moved Permanently''),
      (302, lit ''Found''),
      (400, lit ''Bad Request''),
      (401, lit ''Unauthorized''),
      (403, lit ''Forbidden''),
      (404, lit ''Not Found''),
      (405, lit ''Method Not Allowed''),
      (500, lit ''Internal Server Error''),
      (502, lit ''Bad Gateway''),
      (503, lit ''Service Unavailable'')]"

definition get_status_text :: "int \<Rightarrow> pystr" where
  "get_status_text code = dict_get status_texts code []"

definition get_status_color :: "int \<Rightarrow> pystr" where
  "get_status_color code =
     (if 200 \<le> code \<and> code < 300 then lit ''green''
      else if 300 \<le> code \<and> code < 400 then lit ''yellow''
      else if 400 \<le> code \<and> code < 500 then lit ''orange1''
      else if 500 \<le> code \<and> code < 600 then lit ''red''
      else lit ''white'')"

text \<open>The list against which \<open>format_response\<close> tests each lower-cased header name.\<close>

definition important_headers :: "pystr list" where
  "important_headers =
     [lit ''content-type'', lit ''content-length'', lit ''server'',
      lit ''date'', lit ''cache-control'', lit ''x-ratelimit-remaining'']"

text \<open>
  The loop over \<open>response.headers.items()\<close>, with the rows added so far as accumulator.
  \<open>str.lower\<close> is the parameter \<open>str_lower\<close>.
\<close>

fun add_rows ::
  "(pystr \<Rightarrow> pystr) \<Rightarrow> (pystr \<times> pystr) list \<Rightarrow> (pystr \<times> pystr) list
     \<Rightarrow> (pystr \<times> pystr) list" where
  "add_rows str_lower [] rows = rows"
| "add_rows str_lower ((key, val) # items) rows =
     add_rows str_lower items
       (if str_lower key \<in> set important_headers then rows @ [(key, val)] else rows)"

text \<open>
  \<open>_format_body\<close>. \<open>json.loads\<close> and \<open>json.dumps\<close> belong to the Python runtime: they are
  the parameters \<open>json_loads\<close>, which returns the parsed value or the exception it raises,
  and \<open>json_dumps\<close>, which takes the value, \<open>indent\<close> and \<open>ensure_ascii\<close>. The result is what
  was printed and the exception that left the function, if any: the \<open>except\<close> clause
  names \<open>JSONDecodeError\<close> only, so every other exception of \<open>json.loads\<close> propagates, and
  nothing has been printed by then.
\<close>

definition format_body ::
  "(pystr \<Rightarrow> error + 'j) \<Rightarrow> ('j \<Rightarrow> nat \<Rightarrow> bool \<Rightarrow> pystr) \<Rightarrow> HttpResponse
     \<Rightarrow> renderable list \<times> error option" where
  "format_body json_loads json_dumps response =
     (let content_type = dict_get (headers response) (lit ''content-type'') [] in
      if str_contains (lit ''application/json'') content_type then
        (case json_loads (body response) of
           Inr parsed \<Rightarrow> ([Syntax (json_dumps parsed 2 False) (lit ''json'')], None)
         | Inl JSONDecodeError \<Rightarrow> ([Text (body response)], None)
         | Inl e \<Rightarrow> ([], Some e))
      else if str_contains (lit ''text/html'') content_type then
        (let lines = take 10 (split_lines (body response));
             preview = join_lines lines;
             preview = (if length lines \<ge> 10 then preview @ [10] @ lit ''...'' else preview)
         in ([Syntax preview (lit ''html''),
              Text (lit ''[dim](HTML response truncated, '' @
                    str_of_nat (length (body response)) @ lit '' bytes total)[/dim]'')],
             None))
      else if str_contains (lit ''application/xml'') content_type
              \<or> str_contains (lit ''text/xml'') content_type then
        ([Syntax (take 500 (body response)) (lit ''xml'')] @
         (if length (body response) > 500
          then [Text (lit ''[dim](XML truncated, '' @
                      str_of_nat (length (body response)) @ lit '' bytes total)[/dim]'')]
          else []),
         None)
      else
        (if length (body response) > 1000
         then ([Text (take 1000 (body response)),
                Text (lit ''[dim]... ('' @
                      str_of_nat (length (body response)) @ lit '' bytes total)[/dim]'')],
               None)
         else ([Text (body response)], None)))"

text \<open>
  \<open>format_response\<close>. \<open>fmt_millis t\<close> stands for the float formatting
  \<open>f"{t * 1000:.0f}"\<close>. An exception that leaves \<open>_format_body\<close> leaves \<open>format_response\<close>
  too, after the summary, the headers and the heading of the body have been printed and
  before the closing blank line.
\<close>

definition format_response ::
  "(pystr \<Rightarrow> pystr) \<Rightarrow> (real \<Rightarrow> pystr) \<Rightarrow> (pystr \<Rightarrow> error + 'j)
     \<Rightarrow> ('j \<Rightarrow> nat \<Rightarrow> bool \<Rightarrow> pystr) \<Rightarrow> HttpResponse \<Rightarrow> bool
     \<Rightarrow> renderable list \<times> error option" where
  "format_response str_lower fmt_millis json_loads json_dumps response show_headers =
     (let status_color = get_status_color (status_code response);
          printed =
      [Blank,
       Panel
         (lit ''['' @ status_color @ lit '']Status:[/'' @ status_color @ lit ''] '' @
            str_of_int (status_code response) @ lit '' '' @
            get_status_text (status_code response) @ [10] @
          lit ''[cyan]Time:[/cyan] '' @ fmt_millis (elapsed_time response) @ lit ''ms'' @ [10] @
          lit ''[cyan]Size:[/cyan] '' @ str_of_nat (length (body response)) @ lit '' bytes'')
         (lit ''[bold]Response - '' @ method (request response) @ lit '' '' @
            url (request response) @ lit ''[/bold]'')
         status_color] @
      (if show_headers \<and> headers response \<noteq> []
       then [Text ([10] @ lit ''[bold]Headers:[/bold]''),
             Table (add_rows str_lower (headers response) [])]
       else []) @
      [Text ([10] @ lit ''[bold]Body:[/bold]'')]
      in case format_body json_loads json_dumps response of
           (out, None) \<Rightarrow> (printed @ out @ [Blank], None)
         | (out, Some e) \<Rightarrow> (printed @ out, Some e))"

text \<open>\<open>print_error\<close>; 10007 is the ballot cross that starts the message.\<close>

definition print_error :: "pystr \<Rightarrow> renderable list" where
  "print_error message = [Text (lit ''[bold red]'' @ [10007] @ lit '' Error:[/bold red] '' @ message)]"

section \<open>commands/request.py\<close>

text \<open>
  \<open>_parse_headers\<close>: the loop with the dict built so far. The result is what was printed
  and either the exception raised or the dict returned. Unpacking \<open>key, value\<close> from a
  list that has not two elements raises \<open>ValueError\<close>; 39 is the apostrophe.
\<close>

fun parse_headers_loop ::
  "pystr list \<Rightarrow> (pystr, pystr) dict \<Rightarrow> renderable list \<times> (error + (pystr, pystr) dict)" where
  "parse_headers_loop [] parsed = ([], Inr parsed)"
| "parse_headers_loop (header # rest) parsed =
     (if \<not> str_contains (lit '':'') header
      then (print_error (lit ''Header inv'' @ [225] @ lit ''lido: '' @ [39] @ header @ [39] @
                         lit ''. Formato esperado: '' @ [39] @ lit ''Key: Value'' @ [39]),
            Inl Abort)
      else (case split_colon_1 header of
              [key, val] \<Rightarrow> parse_headers_loop rest (dict_set parsed (strip key) (strip val))
            | _ \<Rightarrow> ([], Inl (ValueError (lit ''not enough values to unpack (expected 2, got 1)'')))))"

definition parse_headers ::
  "pystr list \<Rightarrow> renderable list \<times> (error + (pystr, pystr) dict)" where
  "parse_headers header_args = parse_headers_loop header_args []"

section \<open>Observations on the model\<close>

text \<open>The local variable \<open>content_type\<close> of \<open>_format_body\<close>.\<close>

abbreviation content_type_of :: "HttpResponse \<Rightarrow> pystr" where
  "content_type_of r \<equiv> dict_get (headers r) (lit ''content-type'') []"

text \<open>The rows of the tables among the printed values.\<close>

fun tables_of :: "renderable list \<Rightarrow> (pystr \<times> pystr) list list" where
  "tables_of [] = []"
| "tables_of (Table rows # out) = rows # tables_of out"
| "tables_of (x # out) = tables_of out"

text \<open>
  The test for the JSON branch as the specification words it: a substring match that
  ignores case, on the lower-cased value. It serves for the comparison only.
\<close>

definition spec_json_selected :: "(pystr \<Rightarrow> pystr) \<Rightarrow> HttpResponse \<Rightarrow> bool" where
  "spec_json_selected str_lower r \<longleftrightarrow>
     str_contains (lit ''application/json'') (str_lower (content_type_of r))"

text \<open>
  The pair one argument of \<open>_parse_headers\<close> stores: the stripped text before its first
  colon and the stripped text after it.
\<close>

definition header_entry :: "pystr \<Rightarrow> pystr \<times> pystr" where
  "header_entry h =
     (strip (takeWhile (\<lambda>c. c \<noteq> 58) h), strip (tl (dropWhile (\<lambda>c. c \<noteq> 58) h)))"

section \<open>Example inputs\<close>

text \<open>
  Instances of the runtime functions for the examples: \<open>json.loads\<close> and \<open>json.dumps\<close> on
  the one JSON text the examples use; on 100000 opening brackets \<open>json.loads\<close> raises
  \<open>RecursionError\<close>, and on every other example body \<open>JSONDecodeError\<close>;
  \<open>str.lower\<close> and \<open>str.upper\<close> on ASCII strings, and the formatting of the elapsed time
  by rounding the product, which is what the float formatting gives on the example.
\<close>

datatype json_value =
    JNull | JBool bool | JInt int | JString pystr
  | JArray "json_value list" | JObject "(pystr \<times> json_value) list"

definition deep_brackets :: pystr where
  "deep_brackets = replicate 100000 91"

definition example_json_loads :: "pystr \<Rightarrow> error + json_value" where
  "example_json_loads s =
     (if s = lit ''{\"error\":\"not found\"}''
      then Inr (JObject [(lit ''error'', JString (lit ''not found''))])
      else if s = deep_brackets then Inl RecursionError
      else Inl JSONDecodeError)"

definition example_json_dumps :: "json_value \<Rightarrow> nat \<Rightarrow> bool \<Rightarrow> pystr" where
  "example_json_dumps v indent ensure_ascii =
     (if v = JObject [(lit ''error'', JString (lit ''not found''))] \<and> indent = 2
      then lit ''{'' @ [10] @ lit ''  \"error\": \"not found\"'' @ [10] @ lit ''}''
      else [])"

definition ascii_lower :: "pystr \<Rightarrow> pystr" where
  "ascii_lower s = map (\<lambda>c. if 65 \<le> c \<and> c \<le> 90 then c + 32 else c) s"

definition ascii_upper :: "pystr \<Rightarrow> pystr" where
  "ascii_upper s = map (\<lambda>c. if 97 \<le> c \<and> c \<le> 122 then c - 32 else c) s"

definition example_fmt_millis :: "real \<Rightarrow> pystr" where
  "example_fmt_millis t = str_of_int (round (t * 1000))"

definition example_request :: HttpRequest where
  "example_request =
     \<lparr>method = lit ''DELETE'', url = lit ''https://api.example.com/users/5'',
      HttpRequest.headers = [], HttpRequest.body = None, timeout = 30\<rparr>"

definition example_response :: "pystr \<Rightarrow> pystr \<Rightarrow> HttpResponse" where
  "example_response content_type text =
     \<lparr>status_code = 404, headers = [(lit ''content-type'', content_type)], body = text,
      elapsed_time = 123 / 1000, request = example_request, timestamp = 0\<rparr>"

definition nine_lines :: pystr where
  "nine_lines = [49, 10, 50, 10, 51, 10, 52, 10, 53, 10, 54, 10, 55, 10, 56, 10, 57]"

definition ten_lines :: pystr where
  "ten_lines = [49, 10, 50, 10, 51, 10, 52, 10, 53, 10, 54, 10, 55, 10, 56, 10, 57, 10, 48]"

definition twenty_lines :: pystr where
  "twenty_lines = ten_lines @ [10] @ ten_lines"

text \<open>A response whose only header is spelled \<open>Content-Type\<close>.\<close>

definition capitalised_key_response :: "pystr \<Rightarrow> HttpResponse" where
  "capitalised_key_response text =
     (example_response [] text)\<lparr>headers := [(lit ''Content-Type'', lit ''application/json'')]\<rparr>"

text \<open>Response headers in mixed spelling, two of them not on the list.\<close>

definition example_headers :: "(pystr, pystr) dict" where
  "example_headers =
     [(lit ''Content-Type'', lit ''text/plain''),
      (lit ''x-request-id'', lit ''abc''),
      (lit ''date'', lit ''Tue, 03 Nov 2026 19:00:00 GMT''),
      (lit ''Set-Cookie'', lit ''a=b''),
      (lit ''SERVER'', lit ''nginx''),
      (lit ''content-length'', lit ''2'')]"

text \<open>Arguments of \<open>--header\<close>: one key twice, one value with a colon of its own.\<close>

definition example_header_args :: "pystr list" where
  "example_header_args =
     [lit ''Accept: text/html'', lit '' X-Token : a:b '', lit ''Accept:application/json'']"

text \<open>A body of \<open>n\<close> letters a and one e with acute accent: \<open>n + 1\<close> characters, \<open>n + 2\<close> bytes.\<close>

definition accented_body :: "nat \<Rightarrow> pystr" where
  "accented_body n = replicate n 97 @ [233]"

section \<open>Strings, lines and dicts\<close>

lemma length_lit: "length (lit s) = length s"
  by (simp add: lit_def)

lemma str_contains_iff: "str_contains sub s \<longleftrightarrow> (\<exists>p t. s = p @ sub @ t)"
proof (induction s)
  case Nil
  then show ?case by auto
next
  case (Cons c cs)
  show ?case
  proof
    assume "str_contains sub (c # cs)"
    then consider "take (length sub) (c # cs) = sub" | "str_contains sub cs" by auto
    then show "\<exists>p t. c # cs = p @ sub @ t"
    proof cases
      case 1
      then have "c # cs = [] @ sub @ drop (length sub) (c # cs)"
        by (metis append_Nil append_take_drop_id)
      then show ?thesis by blast
    next
      case 2
      then obtain p t where "cs = p @ sub @ t" using Cons.IH by blast
      then have "c # cs = (c # p) @ sub @ t" by simp
      then show ?thesis by blast
    qed
  next
    assume "\<exists>p t. c # cs = p @ sub @ t"
    then obtain p t where pt: "c # cs = p @ sub @ t" by blast
    show "str_contains sub (c # cs)"
    proof (cases p)
      case Nil
      then have "take (length sub) (c # cs) = sub" using pt by (metis append_Nil append_eq_conv_conj)
      then show ?thesis by simp
    next
      case (Cons a p')
      then have "cs = p' @ sub @ t" using pt by simp
      then have "str_contains sub cs" using Cons.IH by blast
      then show ?thesis by simp
    qed
  qed
qed

lemma split_lines_nonempty: "split_lines s \<noteq> []"
  by (induction s) (auto split: list.splits)

lemma join_split_lines: "join_lines (split_lines s) = s"
proof (induction s)
  case Nil
  show ?case by simp
next
  case (Cons c cs)
  obtain l ls where eq: "split_lines cs = l # ls"
    using split_lines_nonempty [of cs] by (cases "split_lines cs") auto
  show ?case
  proof (cases "c = 10")
    case True
    then show ?thesis using Cons.IH eq by simp
  next
    case False
    then show ?thesis using Cons.IH eq by (cases ls) auto
  qed
qed

lemma length_split_lines: "length (split_lines s) = Suc (count_list s 10)"
proof (induction s)
  case Nil
  show ?case by simp
next
  case (Cons c cs)
  then show ?case using split_lines_nonempty [of cs] by (cases "split_lines cs") auto
qed

lemma split_lines_no_newline: "l \<in> set (split_lines s) \<Longrightarrow> 10 \<notin> set l"
proof (induction s arbitrary: l)
  case Nil
  then show ?case by simp
next
  case (Cons c cs)
  obtain m ms where eq: "split_lines cs = m # ms"
    using split_lines_nonempty [of cs] by (cases "split_lines cs") auto
  show ?case using Cons eq by (auto split: if_splits)
qed

lemma add_rows_filter:
  "add_rows f items rows = rows @ filter (\<lambda>(k, v). f k \<in> set important_headers) items"
  by (induction items arbitrary: rows) auto

lemma map_of_dict_set: "map_of (dict_set d k v) = (map_of d)(k \<mapsto> v)"
  by (induction d) (auto simp: fun_eq_iff)

lemma keys_dict_set:
  "map fst (dict_set d k v) = (if k \<in> fst ` set d then map fst d else map fst d @ [k])"
  by (induction d) (force+)

lemma distinct_dict_set: "distinct (map fst d) \<Longrightarrow> distinct (map fst (dict_set d k v))"
  by (simp add: keys_dict_set)

section \<open>The branches of the body block\<close>

lemma format_body_json:
  assumes "str_contains (lit ''application/json'') (content_type_of r)"
  shows "format_body L D r =
           (case L (body r) of
              Inr parsed \<Rightarrow> ([Syntax (D parsed 2 False) (lit ''json'')], None)
            | Inl JSONDecodeError \<Rightarrow> ([Text (body r)], None)
            | Inl e \<Rightarrow> ([], Some e))"
  using assms by (simp add: format_body_def)

lemma format_body_html:
  assumes "\<not> str_contains (lit ''application/json'') (content_type_of r)"
    and "str_contains (lit ''text/html'') (content_type_of r)"
  shows "format_body L D r =
           ([Syntax (if length (take 10 (split_lines (body r))) \<ge> 10
                     then join_lines (take 10 (split_lines (body r))) @ [10] @ lit ''...''
                     else join_lines (take 10 (split_lines (body r))))
                    (lit ''html''),
             Text (lit ''[dim](HTML response truncated, '' @
                   str_of_nat (length (body r)) @ lit '' bytes total)[/dim]'')],
            None)"
  using assms by (simp add: format_body_def Let_def)

lemma format_body_plain:
  assumes "\<not> str_contains (lit ''application/json'') (content_type_of r)"
    and "\<not> str_contains (lit ''text/html'') (content_type_of r)"
    and "\<not> str_contains (lit ''application/xml'') (content_type_of r)"
    and "\<not> str_contains (lit ''text/xml'') (content_type_of r)"
  shows "format_body L D r =
           (if length (body r) > 1000
            then ([Text (take 1000 (body r)),
                   Text (lit ''[dim]... ('' @ str_of_nat (length (body r)) @
                         lit '' bytes total)[/dim]'')],
                  None)
            else ([Text (body r)], None))"
  using assms by (simp add: format_body_def Let_def)

lemma format_body_xml:
  assumes "\<not> str_contains (lit ''application/json'') (content_type_of r)"
    and "\<not> str_contains (lit ''text/html'') (content_type_of r)"
    and "str_contains (lit ''application/xml'') (content_type_of r)
         \<or> str_contains (lit ''text/xml'') (content_type_of r)"
  shows "format_body L D r =
           (Syntax (take 500 (body r)) (lit ''xml'') #
            (if length (body r) > 500
             then [Text (lit ''[dim](XML truncated, '' @ str_of_nat (length (body r)) @
                         lit '' bytes total)[/dim]'')]
             else []),
            None)"
  using assms by (auto simp add: format_body_def Let_def)

section \<open>Status phrases\<close>

text \<open>
  C8: the status-phrase lookup is total: each of the thirteen curated codes has its fixed
  phrase, and every other integer (422 and 429 among them) gets the empty string.
\<close>

theorem get_status_text_total:
  "get_status_text c =
     (if c = 200 then lit ''OK''
      else if c = 201 then lit ''Created''
      else if c = 204 then lit ''No Content''
      else if c = 301 then lit ''Moved Permanently''
      else if c = 302 then lit ''Found''
      else if c = 400 then lit ''Bad Request''
      else if c = 401 then lit ''Unauthorized''
      else if c = 403 then lit ''Forbidden''
      else if c = 404 then lit ''Not Found''
      else if c = 405 then lit ''Method Not Allowed''
      else if c = 500 then lit ''Internal Server Error''
      else if c = 502 then lit ''Bad Gateway''
      else if c = 503 then lit ''Service Unavailable''
      else [])"
  by (simp add: get_status_text_def dict_get_def status_texts_def)

theorem get_status_text_total_witness:
  "get_status_text 404 = lit ''Not Found'' \<and> get_status_text 422 = [] \<and>
   get_status_text 429 = [] \<and> get_status_text (- 1) = []"
  using get_status_text_total [of 404] get_status_text_total [of 422]
    get_status_text_total [of 429] get_status_text_total [of "- 1"]
  by simp

section \<open>The JSON branch\<close>

lemma length_deep_brackets: "length deep_brackets = 100000"
  by (simp add: deep_brackets_def)

lemma deep_brackets_not_example: "deep_brackets \<noteq> lit ''{\"error\":\"not found\"}''"
proof -
  have "length deep_brackets \<noteq> length (lit ''{\"error\":\"not found\"}'')"
    by (simp add: length_deep_brackets lit_def)
  then show ?thesis by metis
qed

lemma example_json_loads_deep_brackets: "example_json_loads deep_brackets = Inl RecursionError"
  by (simp add: example_json_loads_def deep_brackets_not_example)



text \<open>
  C4, as the code has it: when the content type contains \<open>application/json\<close> and
  \<open>json.loads\<close> raises \<open>JSONDecodeError\<close>, that exception is caught and does not leave
  \<open>_format_body\<close>; the one value printed as the body block is the body as received, whole,
  whatever its length.
\<close>

theorem json_decode_failure_shows_raw_body:
  assumes "str_contains (lit ''application/json'') (content_type_of r)"
    and "json_loads (body r) = Inl JSONDecodeError"
  shows "format_body json_loads json_dumps r = ([Text (body r)], None)"
  using assms by (simp add: format_body_json)

theorem json_decode_failure_shows_raw_body_witness:
  "str_contains (lit ''application/json'')
     (content_type_of (example_response (lit ''application/json; charset=utf-8'')
        (replicate 1500 120))) \<and>
   example_json_loads (body (example_response (lit ''application/json; charset=utf-8'')
        (replicate 1500 120))) = Inl JSONDecodeError \<and>
   format_body example_json_loads example_json_dumps
     (example_response (lit ''application/json; charset=utf-8'') (replicate 1500 120))
     = ([Text (replicate 1500 120)], None)"
proof -
  let ?r = "example_response (lit ''application/json; charset=utf-8'') (replicate 1500 120)"
  have b: "body ?r = replicate 1500 120"
    by (simp add: example_response_def)
  have h1: "str_contains (lit ''application/json'') (content_type_of ?r)"
    by (simp add: example_response_def dict_get_def lit_def)
  have "length (replicate 1500 (120::nat)) \<noteq> length (lit ''{\"error\":\"not found\"}'')"
    by (simp add: lit_def)
  then have n1: "replicate 1500 120 \<noteq> lit ''{\"error\":\"not found\"}''"
    by metis
  have "length (replicate 1500 (120::nat)) \<noteq> length deep_brackets"
    by (simp add: length_deep_brackets)
  then have n2: "replicate 1500 120 \<noteq> deep_brackets"
    by metis
  have h2: "example_json_loads (body ?r) = Inl JSONDecodeError"
    using n1 n2 by (simp add: b example_json_loads_def)
  show ?thesis
    using h1 h2
      json_decode_failure_shows_raw_body [where r = "?r" and json_loads = example_json_loads
        and json_dumps = example_json_dumps]
    by (simp add: b)
qed

text \<open>
  C4, as the specification words it, covers every body that is not valid JSON and says
  that rendering does not raise. On a body of 100000 opening brackets \<open>json.loads\<close> raises
  \<open>RecursionError\<close>, which the \<open>except\<close> clause does not name: the exception leaves
  \<open>_format_body\<close> and \<open>format_response\<close>, and no body block is printed.
\<close>

theorem json_other_exception_counterexample:
  "str_contains (lit ''application/json'')
     (content_type_of (example_response (lit ''application/json'') deep_brackets)) \<and>
   example_json_loads (body (example_response (lit ''application/json'') deep_brackets))
     = Inl RecursionError \<and>
   format_body example_json_loads example_json_dumps
     (example_response (lit ''application/json'') deep_brackets)
     = ([], Some RecursionError) \<and>
   snd (format_response ascii_lower example_fmt_millis example_json_loads example_json_dumps
          (example_response (lit ''application/json'') deep_brackets) True)
     = Some RecursionError"
proof -
  let ?r = "example_response (lit ''application/json'') deep_brackets"
  have b: "body ?r = deep_brackets"
    by (simp add: example_response_def)
  have h1: "str_contains (lit ''application/json'') (content_type_of ?r)"
    by (simp add: example_response_def dict_get_def lit_def)
  have h2: "example_json_loads (body ?r) = Inl RecursionError"
    by (simp only: b example_json_loads_deep_brackets)
  have f: "format_body example_json_loads example_json_dumps ?r = ([], Some RecursionError)"
    using format_body_json [OF h1, of example_json_loads example_json_dumps]
    by (simp add: h2)
  have "snd (format_response ascii_lower example_fmt_millis example_json_loads
          example_json_dumps ?r True) = Some RecursionError"
    by (simp add: format_response_def Let_def f)
  with h1 h2 f show ?thesis by simp
qed

section \<open>The plain-text branch\<close>

text \<open>
  C6: when the content type contains none of the four patterns, a body of at most 1000
  characters is printed as it is and nothing follows it; a longer body is printed as its
  first 1000 characters, followed by the footnote that carries the length of the whole body.
\<close>

theorem plain_text_truncation:
  assumes "\<not> str_contains (lit ''application/json'') (content_type_of r)"
    and "\<not> str_contains (lit ''text/html'') (content_type_of r)"
    and "\<not> str_contains (lit ''application/xml'') (content_type_of r)"
    and "\<not> str_contains (lit ''text/xml'') (content_type_of r)"
  shows "format_body json_loads json_dumps r =
           (if length (body r) \<le> 1000 then ([Text (body r)], None)
            else ([Text (take 1000 (body r)),
                   Text (lit ''[dim]... ('' @ str_of_nat (length (body r)) @
                         lit '' bytes total)[/dim]'')], None))"
  using assms by (auto simp add: format_body_plain)

theorem plain_text_truncation_witness:
  "\<not> str_contains (lit ''application/json'') (lit ''text/plain'') \<and>
   \<not> str_contains (lit ''text/html'') (lit ''text/plain'') \<and>
   \<not> str_contains (lit ''application/xml'') (lit ''text/plain'') \<and>
   \<not> str_contains (lit ''text/xml'') (lit ''text/plain'') \<and>
   format_body example_json_loads example_json_dumps
     (example_response (lit ''text/plain'') (replicate 2000 97))
     = ([Text (replicate 1000 97), Text (lit ''[dim]... (2000 bytes total)[/dim]'')], None) \<and>
   format_body example_json_loads example_json_dumps
     (example_response (lit ''text/plain'') (replicate 1001 97))
     = ([Text (replicate 1000 97), Text (lit ''[dim]... (1001 bytes total)[/dim]'')], None) \<and>
   format_body example_json_loads example_json_dumps
     (example_response (lit ''text/plain'') (replicate 1000 97))
     = ([Text (replicate 1000 97)], None)"
proof -
  have s: "str_of_nat 2000 = lit ''2000''" "str_of_nat 1001 = lit ''1001''"
    by (simp_all add: str_of_nat.simps lit_def)
  have c: "content_type_of (example_response (lit ''text/plain'') b) = lit ''text/plain''" for b
    by (simp add: example_response_def dict_get_def lit_def)
  have h: "\<not> str_contains (lit ''application/json'') (lit ''text/plain'')"
    "\<not> str_contains (lit ''text/html'') (lit ''text/plain'')"
    "\<not> str_contains (lit ''application/xml'') (lit ''text/plain'')"
    "\<not> str_contains (lit ''text/xml'') (lit ''text/plain'')"
    by (simp_all add: lit_def)
  have b: "body (example_response (lit ''text/plain'') t) = t" for t
    by (simp add: example_response_def)
  have t: "format_body example_json_loads example_json_dumps
              (example_response (lit ''text/plain'') t) =
            (if length t \<le> 1000 then ([Text t], None)
             else ([Text (take 1000 t),
                    Text (lit ''[dim]... ('' @ str_of_nat (length t) @
                          lit '' bytes total)[/dim]'')], None))" for t
    using plain_text_truncation [where r = "example_response (lit ''text/plain'') t"
        and json_loads = example_json_loads and json_dumps = example_json_dumps]
    by (simp add: c b h)
  show ?thesis
    by (simp add: h t s) (simp add: lit_def)
qed

section \<open>The HTML branch\<close>

text \<open>
  C7: when the content type contains \<open>text/html\<close> (and not \<open>application/json\<close>), the preview
  is the first \<open>min 10 n\<close> of the \<open>n\<close> lines of the body joined by newlines, with a line
  \<open>...\<close> added exactly when \<open>n\<close> is at least 10; the footnote with the length of the whole
  body always follows.
\<close>

theorem html_preview:
  assumes "\<not> str_contains (lit ''application/json'') (content_type_of r)"
    and "str_contains (lit ''text/html'') (content_type_of r)"
  shows "format_body json_loads json_dumps r =
           ([Syntax (join_lines (take 10 (split_lines (body r))) @
                     (if 10 \<le> length (split_lines (body r)) then [10] @ lit ''...'' else []))
                    (lit ''html''),
             Text (lit ''[dim](HTML response truncated, '' @
                   str_of_nat (length (body r)) @ lit '' bytes total)[/dim]'')], None) \<and>
         length (take 10 (split_lines (body r))) = min 10 (Suc (count_list (body r) 10))"
  using assms by (simp add: format_body_html length_split_lines)

theorem html_preview_witness:
  "\<not> str_contains (lit ''application/json'') (lit ''text/html; charset=utf-8'') \<and>
   str_contains (lit ''text/html'') (lit ''text/html; charset=utf-8'') \<and>
   format_body example_json_loads example_json_dumps
     (example_response (lit ''text/html; charset=utf-8'') nine_lines)
     = ([Syntax nine_lines (lit ''html''),
         Text (lit ''[dim](HTML response truncated, 17 bytes total)[/dim]'')], None) \<and>
   format_body example_json_loads example_json_dumps
     (example_response (lit ''text/html; charset=utf-8'') ten_lines)
     = ([Syntax (ten_lines @ [10] @ lit ''...'') (lit ''html''),
         Text (lit ''[dim](HTML response truncated, 19 bytes total)[/dim]'')], None) \<and>
   format_body example_json_loads example_json_dumps
     (example_response (lit ''text/html; charset=utf-8'') twenty_lines)
     = ([Syntax (ten_lines @ [10] @ lit ''...'') (lit ''html''),
         Text (lit ''[dim](HTML response truncated, 39 bytes total)[/dim]'')], None)"
proof -
  have s: "str_of_nat 17 = lit ''17''" "str_of_nat 19 = lit ''19''" "str_of_nat 39 = lit ''39''"
    by (simp_all add: str_of_nat.simps lit_def)
  have c: "content_type_of (example_response (lit ''text/html; charset=utf-8'') b)
           = lit ''text/html; charset=utf-8''" for b
    by (simp add: example_response_def dict_get_def lit_def)
  have h: "\<not> str_contains (lit ''application/json'') (lit ''text/html; charset=utf-8'')"
    "str_contains (lit ''text/html'') (lit ''text/html; charset=utf-8'')"
    by (simp_all add: lit_def)
  have b: "body (example_response (lit ''text/html; charset=utf-8'') t) = t" for t
    by (simp add: example_response_def)
  have t: "format_body example_json_loads example_json_dumps
              (example_response (lit ''text/html; charset=utf-8'') t) =
            ([Syntax (join_lines (take 10 (split_lines t)) @
                      (if 10 \<le> length (split_lines t) then [10] @ lit ''...'' else []))
                     (lit ''html''),
              Text (lit ''[dim](HTML response truncated, '' @
                    str_of_nat (length t) @ lit '' bytes total)[/dim]'')], None)" for t
    using html_preview [where r = "example_response (lit ''text/html; charset=utf-8'') t"
        and json_loads = example_json_loads and json_dumps = example_json_dumps]
    by (simp add: c b h)
  have l: "length nine_lines = 17" "length ten_lines = 19" "length twenty_lines = 39"
    by (simp_all add: nine_lines_def ten_lines_def twenty_lines_def)
  have p: "join_lines (take 10 (split_lines nine_lines)) = nine_lines"
    "join_lines (take 10 (split_lines ten_lines)) = ten_lines"
    "join_lines (take 10 (split_lines twenty_lines)) = ten_lines"
    by (simp_all add: nine_lines_def ten_lines_def twenty_lines_def)
  have n: "length (split_lines nine_lines) = 9" "length (split_lines ten_lines) = 10"
    "length (split_lines twenty_lines) = 20"
    by (simp_all add: nine_lines_def ten_lines_def twenty_lines_def)
  show ?thesis
    by (simp add: h t l s p n join_split_lines) (simp add: lit_def)
qed

section \<open>Dispatch on the content type\<close>

lemma example_response_sel:
  "content_type_of (example_response ct t) = ct"
  "body (example_response ct t) = t"
  by (simp_all add: example_response_def dict_get_def)

lemma example_json_loads_error:
  "example_json_loads (lit ''{\"error\":\"not found\"}'')
     = Inr (JObject [(lit ''error'', JString (lit ''not found''))])"
  by (simp add: example_json_loads_def)

lemma example_json_dumps_error:
  "example_json_dumps (JObject [(lit ''error'', JString (lit ''not found''))]) 2 False
     = lit ''{'' @ [10] @ lit ''  \"error\": \"not found\"'' @ [10] @ lit ''}''"
  by (simp add: example_json_dumps_def)

text \<open>
  C2, as the code has it: the content type is the value stored under the key
  \<open>content-type\<close>, spelled so, and the empty string when there is none; the patterns
  are searched in it code point for code point, upper and lower case distinct, and the
  first that occurs decides, in the order JSON, HTML, XML, plain text.
\<close>

theorem format_body_dispatch:
  "content_type_of r =
     (case map_of (headers r) (lit ''content-type'') of None \<Rightarrow> [] | Some v \<Rightarrow> v) \<and>
   format_body json_loads json_dumps r =
     (if \<exists>p s. content_type_of r = p @ lit ''application/json'' @ s then
        (case json_loads (body r) of
           Inr parsed \<Rightarrow> ([Syntax (json_dumps parsed 2 False) (lit ''json'')], None)
         | Inl JSONDecodeError \<Rightarrow> ([Text (body r)], None)
         | Inl e \<Rightarrow> ([], Some e))
      else if \<exists>p s. content_type_of r = p @ lit ''text/html'' @ s then
        ([Syntax (join_lines (take 10 (split_lines (body r))) @
                  (if 10 \<le> length (split_lines (body r)) then [10] @ lit ''...'' else []))
                 (lit ''html''),
          Text (lit ''[dim](HTML response truncated, '' @
                str_of_nat (length (body r)) @ lit '' bytes total)[/dim]'')], None)
      else if (\<exists>p s. content_type_of r = p @ lit ''application/xml'' @ s) \<or>
              (\<exists>p s. content_type_of r = p @ lit ''text/xml'' @ s) then
        (Syntax (take 500 (body r)) (lit ''xml'') #
         (if 500 < length (body r)
          then [Text (lit ''[dim](XML truncated, '' @ str_of_nat (length (body r)) @
                      lit '' bytes total)[/dim]'')]
          else []), None)
      else if 1000 < length (body r) then
        ([Text (take 1000 (body r)),
          Text (lit ''[dim]... ('' @ str_of_nat (length (body r)) @
                lit '' bytes total)[/dim]'')], None)
      else ([Text (body r)], None))"
proof -
  let ?ct = "content_type_of r"
  show ?thesis
  proof (cases "str_contains (lit ''application/json'') ?ct")
    case True
    then show ?thesis
      using format_body_json [OF True, of json_loads json_dumps] by (simp add: str_contains_iff [symmetric] dict_get_def)
  next
    case nj: False
    show ?thesis
    proof (cases "str_contains (lit ''text/html'') ?ct")
      case True
      then show ?thesis
        using nj format_body_html [OF nj True, of json_loads json_dumps]
        by (simp add: str_contains_iff [symmetric] dict_get_def)
    next
      case nh: False
      show ?thesis
      proof (cases "str_contains (lit ''application/xml'') ?ct \<or> str_contains (lit ''text/xml'') ?ct")
        case True
        then show ?thesis
          using nj nh format_body_xml [OF nj nh True, of json_loads json_dumps]
          by (simp add: str_contains_iff [symmetric] dict_get_def)
      next
        case False
        then show ?thesis
          using nj nh format_body_plain [of r json_loads json_dumps]
          by (simp add: str_contains_iff [symmetric] dict_get_def)
      qed
    qed
  qed
qed

theorem format_body_dispatch_witness:
  "format_body example_json_loads example_json_dumps
     (example_response (lit ''application/json; charset=utf-8'') (lit ''{\"error\":\"not found\"}''))
     = ([Syntax (lit ''{'' @ [10] @ lit ''  \"error\": \"not found\"'' @ [10] @ lit ''}'')
          (lit ''json'')], None) \<and>
   format_body example_json_loads example_json_dumps
     (example_response (lit ''text/html+application/json'') (lit ''{\"error\":\"not found\"}''))
     = ([Syntax (lit ''{'' @ [10] @ lit ''  \"error\": \"not found\"'' @ [10] @ lit ''}'')
          (lit ''json'')], None) \<and>
   format_body example_json_loads example_json_dumps
     (example_response (lit ''text/xml, text/html'') (lit ''<p>''))
     = ([Syntax (lit ''<p>'') (lit ''html''),
         Text (lit ''[dim](HTML response truncated, 3 bytes total)[/dim]'')], None) \<and>
   format_body example_json_loads example_json_dumps
     (example_response (lit ''text/xml'') (lit ''<a/>''))
     = ([Syntax (lit ''<a/>'') (lit ''xml'')], None) \<and>
   format_body example_json_loads example_json_dumps
     (example_response (lit ''Application/JSON'') (lit ''{\"error\":\"not found\"}''))
     = ([Text (lit ''{\"error\":\"not found\"}'')], None) \<and>
   format_body example_json_loads example_json_dumps
     (capitalised_key_response (lit ''{\"error\":\"not found\"}''))
     = ([Text (lit ''{\"error\":\"not found\"}'')], None)"
proof -
  have c: "content_type_of (capitalised_key_response t) = []" for t
    by (simp add: capitalised_key_response_def dict_get_def lit_def)
  have b: "body (capitalised_key_response t) = t" for t
    by (simp add: capitalised_key_response_def example_response_def)
  have ln: "length (lit ''<p>'') = 3" "length (lit ''<a/>'') = 4"
    "length (lit ''{\"error\":\"not found\"}'') = 21"
    by (simp_all add: lit_def)
  have k: "str_contains (lit ''application/json'') (lit ''application/json; charset=utf-8'')"
    "str_contains (lit ''application/json'') (lit ''text/html+application/json'')"
    "\<not> str_contains (lit ''application/json'') (lit ''text/xml, text/html'')"
    "str_contains (lit ''text/html'') (lit ''text/xml, text/html'')"
    "\<not> str_contains (lit ''application/json'') (lit ''text/xml'')"
    "\<not> str_contains (lit ''text/html'') (lit ''text/xml'')"
    "str_contains (lit ''text/xml'') (lit ''text/xml'')"
    "\<not> str_contains (lit ''application/json'') (lit ''Application/JSON'')"
    "\<not> str_contains (lit ''text/html'') (lit ''Application/JSON'')"
    "\<not> str_contains (lit ''application/xml'') (lit ''Application/JSON'')"
    "\<not> str_contains (lit ''text/xml'') (lit ''Application/JSON'')"
    "\<not> str_contains (lit ''application/json'') []"
    "\<not> str_contains (lit ''text/html'') []"
    "\<not> str_contains (lit ''application/xml'') []"
    "\<not> str_contains (lit ''text/xml'') []"
    by (simp_all add: lit_def)
  have s: "str_of_nat 3 = lit ''3''"
    by (simp add: str_of_nat.simps lit_def)
  have sl: "split_lines (lit ''<p>'') = [lit ''<p>'']"
    by (simp add: lit_def)
  note d = format_body_dispatch [where json_loads = example_json_loads
      and json_dumps = example_json_dumps, THEN conjunct2,
      unfolded str_contains_iff [symmetric]]
  show ?thesis
    by (simp add: d example_response_sel c b k
        example_json_loads_error example_json_dumps_error ln s sl)
      (simp add: lit_def)
qed

text \<open>
  C2, as the specification words it, asks for a match that ignores case: the value
  \<open>Application/JSON\<close> would select the JSON branch. The code prints the body as plain
  text instead, although \<open>json.loads\<close> accepts it.
\<close>

theorem json_dispatch_case_counterexample:
  "spec_json_selected ascii_lower
     (example_response (lit ''Application/JSON'') (lit ''{\"error\":\"not found\"}'')) \<and>
   example_json_loads (lit ''{\"error\":\"not found\"}'')
     = Inr (JObject [(lit ''error'', JString (lit ''not found''))]) \<and>
   format_body example_json_loads example_json_dumps
     (example_response (lit ''Application/JSON'') (lit ''{\"error\":\"not found\"}''))
     = ([Text (lit ''{\"error\":\"not found\"}'')], None) \<and>
   format_body example_json_loads example_json_dumps
     (example_response (lit ''Application/JSON'') (lit ''{\"error\":\"not found\"}''))
     \<noteq> ([Syntax (example_json_dumps (JObject [(lit ''error'', JString (lit ''not found''))]) 2 False)
           (lit ''json'')], None)"
proof -
  let ?r = "example_response (lit ''Application/JSON'') (lit ''{\"error\":\"not found\"}'')"
  have s: "spec_json_selected ascii_lower ?r"
    by (simp add: spec_json_selected_def example_response_sel) (simp add: ascii_lower_def lit_def)
  have n: "\<not> str_contains (lit ''application/json'') (content_type_of ?r)"
    "\<not> str_contains (lit ''text/html'') (content_type_of ?r)"
    "\<not> str_contains (lit ''application/xml'') (content_type_of ?r)"
    "\<not> str_contains (lit ''text/xml'') (content_type_of ?r)"
    by (simp_all add: example_response_sel) (simp_all add: lit_def)
  have l: "\<not> 1000 < length (body ?r)"
    by (simp add: example_response_sel length_lit)
  have f: "format_body example_json_loads example_json_dumps ?r = ([Text (body ?r)], None)"
    using format_body_plain [OF n, of example_json_loads example_json_dumps] l by simp
  show ?thesis
    using s f example_json_loads_error by (simp add: example_response_sel)
qed

section \<open>The header block\<close>

lemma tables_of_append: "tables_of (xs @ ys) = tables_of xs @ tables_of ys"
  by (induction xs rule: tables_of.induct) auto

lemma tables_of_format_body: "tables_of (fst (format_body L D r)) = []"
  by (simp add: format_body_def Let_def split: sum.splits error.splits)

lemma ascii_lower_examples:
  "ascii_lower (lit ''Content-Type'') = lit ''content-type''"
  "ascii_lower (lit ''x-request-id'') = lit ''x-request-id''"
  "ascii_lower (lit ''date'') = lit ''date''"
  "ascii_lower (lit ''Set-Cookie'') = lit ''set-cookie''"
  "ascii_lower (lit ''SERVER'') = lit ''server''"
  "ascii_lower (lit ''content-length'') = lit ''content-length''"
  by (simp_all add: ascii_lower_def lit_def)

lemma lit_neq_examples:
  "lit ''x-request-id'' \<noteq> lit ''content-type''"
  "lit ''x-request-id'' \<noteq> lit ''content-length''"
  "lit ''x-request-id'' \<noteq> lit ''server''"
  "lit ''x-request-id'' \<noteq> lit ''date''"
  "lit ''x-request-id'' \<noteq> lit ''cache-control''"
  "lit ''x-request-id'' \<noteq> lit ''x-ratelimit-remaining''"
  "lit ''set-cookie'' \<noteq> lit ''content-type''"
  "lit ''set-cookie'' \<noteq> lit ''content-length''"
  "lit ''set-cookie'' \<noteq> lit ''server''"
  "lit ''set-cookie'' \<noteq> lit ''date''"
  "lit ''set-cookie'' \<noteq> lit ''cache-control''"
  "lit ''set-cookie'' \<noteq> lit ''x-ratelimit-remaining''"
  by (simp_all add: lit_def)

text \<open>
  C5: with \<open>show_headers\<close> true and a header mapping that is not empty, one table is
  printed; its rows are exactly the entries of the mapping whose lower-cased key is one of
  the six names, with key and value as received and in the order of the mapping. Without
  \<open>show_headers\<close>, or with no header at all, no table is printed.
\<close>

theorem header_block_allow_list:
  "tables_of (fst (format_response str_lower fmt_millis json_loads json_dumps r show_headers)) =
     (if show_headers \<and> headers r \<noteq> []
      then [filter (\<lambda>(k, v). str_lower k = lit ''content-type'' \<or>
                             str_lower k = lit ''content-length'' \<or>
                             str_lower k = lit ''server'' \<or>
                             str_lower k = lit ''date'' \<or>
                             str_lower k = lit ''cache-control'' \<or>
                             str_lower k = lit ''x-ratelimit-remaining'')
                   (headers r)]
      else [])"
proof -
  have e: "k \<in> set important_headers \<longleftrightarrow>
        (k = lit ''content-type'' \<or> k = lit ''content-length'' \<or> k = lit ''server'' \<or>
         k = lit ''date'' \<or> k = lit ''cache-control'' \<or> k = lit ''x-ratelimit-remaining'')"
    for k
    by (simp add: important_headers_def)
  obtain out raised where fb: "format_body json_loads json_dumps r = (out, raised)"
    by (cases "format_body json_loads json_dumps r")
  have t: "tables_of out = []"
    using tables_of_format_body [of json_loads json_dumps r] by (simp add: fb)
  show ?thesis
    by (cases raised)
      (simp_all add: format_response_def Let_def fb tables_of_append t add_rows_filter e)
qed

theorem header_block_allow_list_witness:
  "tables_of (fst (format_response ascii_lower example_fmt_millis example_json_loads
       example_json_dumps ((example_response [] (lit ''ok''))\<lparr>headers := example_headers\<rparr>) True))
     = [[(lit ''Content-Type'', lit ''text/plain''),
         (lit ''date'', lit ''Tue, 03 Nov 2026 19:00:00 GMT''),
         (lit ''SERVER'', lit ''nginx''),
         (lit ''content-length'', lit ''2'')]] \<and>
   tables_of (fst (format_response ascii_lower example_fmt_millis example_json_loads
       example_json_dumps ((example_response [] (lit ''ok''))\<lparr>headers := example_headers\<rparr>) False))
     = [] \<and>
   tables_of (fst (format_response ascii_lower example_fmt_millis example_json_loads
       example_json_dumps ((example_response [] (lit ''ok''))\<lparr>headers := []\<rparr>) True))
     = []"
proof -
  have h: "headers ((example_response [] (lit ''ok''))\<lparr>headers := hs\<rparr>) = hs" for hs
    by simp
  have ne: "example_headers \<noteq> []"
    by (simp add: example_headers_def)
  have f: "filter (\<lambda>(k, v). ascii_lower k = lit ''content-type'' \<or>
                             ascii_lower k = lit ''content-length'' \<or>
                             ascii_lower k = lit ''server'' \<or>
                             ascii_lower k = lit ''date'' \<or>
                             ascii_lower k = lit ''cache-control'' \<or>
                             ascii_lower k = lit ''x-ratelimit-remaining'') example_headers
           = [(lit ''Content-Type'', lit ''text/plain''),
              (lit ''date'', lit ''Tue, 03 Nov 2026 19:00:00 GMT''),
              (lit ''SERVER'', lit ''nginx''),
              (lit ''content-length'', lit ''2'')]"
    by (simp add: example_headers_def ascii_lower_examples lit_neq_examples)
  show ?thesis
    unfolding header_block_allow_list h
    using ne f by simp
qed

section \<open>Construction of a request\<close>

text \<open>
  C9: the constructor upper-cases the method first; it raises \<open>ValueError\<close> exactly when
  the upper-cased method is not one of the seven names, and otherwise returns the request
  whose method field is the upper-cased value, the other fields as given.
\<close>

theorem http_request_method_validation:
  "HttpRequest_new str_upper m u h b t =
     (if str_upper m = lit ''GET'' \<or> str_upper m = lit ''POST'' \<or> str_upper m = lit ''PUT'' \<or>
         str_upper m = lit ''DELETE'' \<or> str_upper m = lit ''PATCH'' \<or>
         str_upper m = lit ''HEAD'' \<or> str_upper m = lit ''OPTIONS''
      then Inr \<lparr>method = str_upper m, url = u, HttpRequest.headers = h,
                HttpRequest.body = b, timeout = t\<rparr>
      else Inl (ValueError
                 (lit ''M'' @ [233] @ lit ''todo inv'' @ [225] @ lit ''lido: '' @ str_upper m)))"
  by (simp add: HttpRequest_new_def post_init_def valid_methods_def)

theorem http_request_method_validation_witness:
  "HttpRequest_new ascii_upper (lit ''get'') (lit ''http://x'') [] None 30
     = Inr \<lparr>method = lit ''GET'', url = lit ''http://x'', HttpRequest.headers = [],
            HttpRequest.body = None, timeout = 30\<rparr> \<and>
   HttpRequest_new ascii_upper (lit ''pAtCh'') (lit ''http://x'') [] None 30
     = Inr \<lparr>method = lit ''PATCH'', url = lit ''http://x'', HttpRequest.headers = [],
            HttpRequest.body = None, timeout = 30\<rparr> \<and>
   HttpRequest_new ascii_upper (lit ''fetch'') (lit ''http://x'') [] None 30
     = Inl (ValueError (lit ''M'' @ [233] @ lit ''todo inv'' @ [225] @ lit ''lido: FETCH'')) \<and>
   HttpRequest_new ascii_upper [] (lit ''http://x'') [] None 30
     = Inl (ValueError (lit ''M'' @ [233] @ lit ''todo inv'' @ [225] @ lit ''lido: ''))"
proof -
  have u: "ascii_upper (lit ''get'') = lit ''GET''"
    "ascii_upper (lit ''pAtCh'') = lit ''PATCH''"
    "ascii_upper (lit ''fetch'') = lit ''FETCH''"
    "ascii_upper [] = []"
    by (simp_all add: ascii_upper_def lit_def)
  show ?thesis
    unfolding http_request_method_validation u
    by (simp add: lit_def)
qed

section \<open>Parsing the header arguments\<close>

lemma str_contains_colon: "str_contains (lit '':'') h \<longleftrightarrow> 58 \<in> set h"
proof -
  have l: "lit '':'' = [58]" by (simp add: lit_def)
  show ?thesis unfolding l by (induction h) auto
qed

lemma split_colon_1_parts:
  assumes "58 \<in> set h"
  shows "\<exists>k v. split_colon_1 h = [k, v] \<and> h = k @ [58] @ v \<and> 58 \<notin> set k"
proof -
  let ?k = "takeWhile (\<lambda>c. c \<noteq> 58) h" and ?d = "dropWhile (\<lambda>c. c \<noteq> 58) h"
  have "?d \<noteq> []" using assms by (auto simp: dropWhile_eq_Nil_conv)
  moreover have "hd ?d = 58" using \<open>?d \<noteq> []\<close> hd_dropWhile [of "\<lambda>c. c \<noteq> 58" h] by auto
  ultimately have "?d = [58] @ tl ?d" by (cases ?d) auto
  then have "h = ?k @ [58] @ tl ?d" by (metis takeWhile_dropWhile_id)
  moreover have "58 \<notin> set ?k" by (auto dest: set_takeWhileD)
  ultimately show ?thesis using assms by (auto simp: split_colon_1_def)
qed

lemma first_colon_unique:
  fixes h :: pystr
  assumes "h = k @ [58] @ v" and "58 \<notin> set k"
  shows "k = takeWhile (\<lambda>c. c \<noteq> 58) h" and "v = tl (dropWhile (\<lambda>c. c \<noteq> 58) h)"
proof -
  have n: "\<And>x. x \<in> set k \<Longrightarrow> x \<noteq> 58" using assms(2) by auto
  show "k = takeWhile (\<lambda>c. c \<noteq> 58) h"
    unfolding assms(1) using n by (simp add: takeWhile_append2)
  show "v = tl (dropWhile (\<lambda>c. c \<noteq> 58) h)"
    unfolding assms(1) using n by (simp add: dropWhile_append2)
qed

lemma parse_headers_loop_all:
  assumes "\<forall>h\<in>set hs. 58 \<in> set h"
  shows "parse_headers_loop hs parsed =
           ([], Inr (fold (\<lambda>h d. dict_set d (fst (header_entry h)) (snd (header_entry h))) hs parsed))"
  using assms
proof (induction hs arbitrary: parsed)
  case Nil
  show ?case by simp
next
  case (Cons h hs)
  then have c: "58 \<in> set h" by simp
  then have "split_colon_1 h =
      [takeWhile (\<lambda>c. c \<noteq> 58) h, tl (dropWhile (\<lambda>c. c \<noteq> 58) h)]"
    by (simp add: split_colon_1_def)
  then show ?case using Cons c by (simp add: str_contains_colon header_entry_def)
qed

lemma parse_headers_loop_abort:
  assumes "\<exists>h\<in>set hs. 58 \<notin> set h"
  shows "snd (parse_headers_loop hs parsed) = Inl Abort"
  using assms
proof (induction hs arbitrary: parsed)
  case Nil
  then show ?case by simp
next
  case (Cons h hs)
  show ?case
  proof (cases "58 \<in> set h")
    case True
    then have "split_colon_1 h =
        [takeWhile (\<lambda>c. c \<noteq> 58) h, tl (dropWhile (\<lambda>c. c \<noteq> 58) h)]"
      by (simp add: split_colon_1_def)
    moreover have "\<exists>h\<in>set hs. 58 \<notin> set h" using Cons.prems True by auto
    ultimately show ?thesis using Cons.IH True by (simp add: str_contains_colon)
  next
    case False
    then show ?thesis by (simp add: str_contains_colon)
  qed
qed

lemma map_of_fold_dict_set:
  "map_of (fold (\<lambda>h d. dict_set d (fst (f h)) (snd (f h))) hs d0) =
     map_of d0 ++ map_of (rev (map f hs))"
proof (induction hs arbitrary: d0)
  case Nil
  show ?case by simp
next
  case (Cons h hs)
  show ?case
    by (simp add: Cons.IH map_of_dict_set map_add_def fun_eq_iff split: option.splits)
qed

lemma distinct_fold_dict_set:
  "distinct (map fst d0) \<Longrightarrow>
   distinct (map fst (fold (\<lambda>h d. dict_set d (fst (f h)) (snd (f h))) hs d0))"
  by (induction hs arbitrary: d0) (simp_all add: distinct_dict_set)

lemma header_entries_split:
  assumes "\<forall>h\<in>set hs. 58 \<in> set h"
  shows "list_all2 (\<lambda>h (key, val). \<exists>k v. h = k @ [58] @ v \<and> 58 \<notin> set k \<and>
                       key = strip k \<and> val = strip v) hs (map header_entry hs)"
proof -
  have "\<exists>k v. h = k @ [58] @ v \<and> 58 \<notin> set k \<and>
          fst (header_entry h) = strip k \<and> snd (header_entry h) = strip v"
    if "h \<in> set hs" for h
  proof -
    from that assms have "58 \<in> set h" by simp
    then obtain k v where kv: "h = k @ [58] @ v" "58 \<notin> set k"
      using split_colon_1_parts by blast
    then show ?thesis
      using first_colon_unique [OF kv] by (auto simp: header_entry_def)
  qed
  then show ?thesis
    by (auto simp: list_all2_conv_all_nth case_prod_beta)
qed

lemma strip_decomp:
  "\<exists>a b. s = a @ strip s @ b \<and> list_all isspace a \<and> list_all isspace b"
proof -
  let ?t = "dropWhile isspace s"
  have 1: "s = takeWhile isspace s @ ?t" by simp
  have "strip s @ rev (takeWhile isspace (rev ?t)) =
        rev (takeWhile isspace (rev ?t) @ dropWhile isspace (rev ?t))"
    by (simp only: strip_def rev_append)
  also have "\<dots> = rev (rev ?t)"
    by (simp only: takeWhile_dropWhile_id)
  finally have 2: "?t = strip s @ rev (takeWhile isspace (rev ?t))"
    by simp
  have 3: "list_all isspace (takeWhile isspace s)"
    by (auto simp: list_all_iff dest: set_takeWhileD)
  have 4: "list_all isspace (rev (takeWhile isspace (rev ?t)))"
    by (auto simp: list_all_iff dest: set_takeWhileD)
  from 1 2 have "s = takeWhile isspace s @ strip s @ rev (takeWhile isspace (rev ?t))"
    by metis
  with 3 4 show ?thesis by blast
qed

lemma strip_ends:
  assumes "strip s \<noteq> []"
  shows "\<not> isspace (hd (strip s))" and "\<not> isspace (last (strip s))"
proof -
  let ?t = "dropWhile isspace s"
  let ?u = "dropWhile isspace (rev ?t)"
  have s: "strip s = rev ?u" by (simp only: strip_def)
  have u: "?u \<noteq> []" using assms unfolding s by (simp only: rev_is_Nil_conv not_False_eq_True)
  have t: "?t \<noteq> []"
  proof
    assume "?t = []"
    then have "?u = []" by (metis dropWhile.simps(1) rev.simps(1))
    with u show False by contradiction
  qed
  have "last (strip s) = hd ?u" unfolding s by (rule last_rev)
  then show "\<not> isspace (last (strip s))" using hd_dropWhile [OF u] by metis
  have "hd (strip s) = last ?u" unfolding s by (rule hd_rev)
  also have "\<dots> = last (takeWhile isspace (rev ?t) @ ?u)" using last_appendR [OF u] by metis
  also have "\<dots> = last (rev ?t)" by (simp only: takeWhile_dropWhile_id)
  also have "\<dots> = hd ?t" by (rule last_rev)
  finally show "\<not> isspace (hd (strip s))" using hd_dropWhile [OF t] by metis
qed

lemma parse_headers_example:
  "parse_headers example_header_args =
     ([], Inr [(lit ''Accept'', lit ''application/json''), (lit ''X-Token'', lit ''a:b'')])"
  by (simp add: parse_headers_def example_header_args_def split_colon_1_def strip_def
      isspace_def lit_def)

text \<open>
  C10: parsing ends in \<open>click.Abort\<close> exactly when some argument has no colon. When every
  argument has one, a dict is returned and nothing is printed: each argument is cut at its
  first colon only, the two parts are stripped, and the dict maps every key to the value of
  the last argument that has this key.
\<close>

theorem parse_headers_result:
  "(snd (parse_headers hs) = Inl Abort \<longleftrightarrow> (\<exists>h\<in>set hs. 58 \<notin> set h)) \<and>
   ((\<forall>h\<in>set hs. 58 \<in> set h) \<longrightarrow>
      (\<exists>d entries.
         parse_headers hs = ([], Inr d) \<and>
         list_all2 (\<lambda>h (key, val). \<exists>k v. h = k @ [58] @ v \<and> 58 \<notin> set k \<and>
                       key = strip k \<and> val = strip v) hs entries \<and>
         map_of d = map_of (rev entries) \<and>
         distinct (map fst d)))"
proof (intro conjI impI)
  show "snd (parse_headers hs) = Inl Abort \<longleftrightarrow> (\<exists>h\<in>set hs. 58 \<notin> set h)"
  proof
    assume a: "snd (parse_headers hs) = Inl Abort"
    show "\<exists>h\<in>set hs. 58 \<notin> set h"
    proof (rule ccontr)
      assume "\<not> (\<exists>h\<in>set hs. 58 \<notin> set h)"
      then have "\<forall>h\<in>set hs. 58 \<in> set h" by blast
      then show False using a parse_headers_loop_all [of hs "[]"]
        by (simp add: parse_headers_def)
    qed
  next
    assume "\<exists>h\<in>set hs. 58 \<notin> set h"
    then show "snd (parse_headers hs) = Inl Abort"
      by (simp add: parse_headers_def parse_headers_loop_abort)
  qed
next
  assume all: "\<forall>h\<in>set hs. 58 \<in> set h"
  let ?d = "fold (\<lambda>h d. dict_set d (fst (header_entry h)) (snd (header_entry h))) hs []"
  have "parse_headers hs = ([], Inr ?d)"
    using parse_headers_loop_all [OF all] by (simp add: parse_headers_def)
  moreover have "map_of ?d = map_of (rev (map header_entry hs))"
    by (simp add: map_of_fold_dict_set)
  moreover have "distinct (map fst ?d)"
    by (simp add: distinct_fold_dict_set)
  ultimately show "\<exists>d entries.
         parse_headers hs = ([], Inr d) \<and>
         list_all2 (\<lambda>h (key, val). \<exists>k v. h = k @ [58] @ v \<and> 58 \<notin> set k \<and>
                       key = strip k \<and> val = strip v) hs entries \<and>
         map_of d = map_of (rev entries) \<and>
         distinct (map fst d)"
    using header_entries_split [OF all] by blast
qed

theorem parse_headers_result_witness:
  "58 \<in> set (lit ''Accept: text/html'') \<and> 58 \<in> set (lit '' X-Token : a:b '') \<and>
   58 \<in> set (lit ''Accept:application/json'') \<and>
   parse_headers example_header_args =
     ([], Inr [(lit ''Accept'', lit ''application/json''), (lit ''X-Token'', lit ''a:b'')]) \<and>
   58 \<notin> set (lit ''Accept'') \<and>
   snd (parse_headers [lit ''X-Token: a'', lit ''Accept'', lit ''no colon either'']) = Inl Abort \<and>
   fst (parse_headers [lit ''X-Token: a'', lit ''Accept'', lit ''no colon either'']) =
     print_error (lit ''Header inv'' @ [225] @ lit ''lido: '' @ [39] @ lit ''Accept'' @ [39] @
                  lit ''. Formato esperado: '' @ [39] @ lit ''Key: Value'' @ [39])"
proof -
  have c: "58 \<in> set (lit ''Accept: text/html'')" "58 \<in> set (lit '' X-Token : a:b '')"
    "58 \<in> set (lit ''Accept:application/json'')" "58 \<notin> set (lit ''Accept'')"
    by (simp_all add: lit_def)
  have a: "snd (parse_headers [lit ''X-Token: a'', lit ''Accept'', lit ''no colon either''])
             = Inl Abort"
    using parse_headers_result [of "[lit ''X-Token: a'', lit ''Accept'', lit ''no colon either'']"]
      c(4) by simp
  have "\<forall>h\<in>set example_header_args. 58 \<in> set h"
    using c by (simp add: example_header_args_def)
  then obtain d where d: "parse_headers example_header_args = ([], Inr d)"
    using parse_headers_result [of example_header_args] by blast
  have e: "fst (parse_headers [lit ''X-Token: a'', lit ''Accept'', lit ''no colon either'']) =
     print_error (lit ''Header inv'' @ [225] @ lit ''lido: '' @ [39] @ lit ''Accept'' @ [39] @
                  lit ''. Formato esperado: '' @ [39] @ lit ''Key: Value'' @ [39])"
    by (simp add: parse_headers_def split_colon_1_def strip_def isspace_def lit_def)
  show ?thesis
    using c a d e parse_headers_example by simp
qed

section \<open>The size of the body\<close>

text \<open>
  The size the source prints is \<open>len(response.body)\<close>, the number of code points. It is
  the number of bytes of the UTF-8 encoding exactly when every code point is below 128, and
  smaller otherwise.
\<close>

lemma spec_utf8_size_simps:
  "spec_utf8_size [] = 0"
  "spec_utf8_size (c # s) = length (utf8_encode_cp c) + spec_utf8_size s"
  "spec_utf8_size (s @ t) = spec_utf8_size s + spec_utf8_size t"
  by (simp_all add: spec_utf8_size_def)

lemma length_utf8_encode_cp:
  "length (utf8_encode_cp c) = (if c < 128 then 1 else if c < 2048 then 2 else if c < 65536 then 3 else 4)"
  by (simp add: utf8_encode_cp_def)

lemma length_le_spec_utf8_size: "length s \<le> spec_utf8_size s"
  by (induction s) (simp_all add: spec_utf8_size_simps length_utf8_encode_cp)

lemma spec_utf8_size_eq_length_iff:
  "spec_utf8_size s = length s \<longleftrightarrow> (\<forall>c\<in>set s. c < 128)"
proof (induction s)
  case Nil
  show ?case by (simp add: spec_utf8_size_simps)
next
  case (Cons c s)
  show ?case
    using Cons.IH length_le_spec_utf8_size [of s]
    by (auto simp add: spec_utf8_size_simps length_utf8_encode_cp)
qed

lemma spec_utf8_size_replicate_a: "spec_utf8_size (replicate n 97) = n"
  by (induction n) (simp_all add: spec_utf8_size_simps length_utf8_encode_cp)

lemma size_texts:
  "str_of_nat (Suc 0) = lit ''1''" "str_of_nat 501 = lit ''501''" "str_of_nat 1001 = lit ''1001''"
  "str_of_int 404 = lit ''404''" "example_fmt_millis (123 / 1000) = lit ''123''"
  by (simp_all add: str_of_nat.simps str_of_int_def example_fmt_millis_def lit_def)

text \<open>
  C1 asks for the UTF-8 byte length in the \<open>Size\<close> field and in the three footnotes. At a
  body that ends in an accented letter the source prints the number of characters under
  the word \<open>bytes\<close>: 1 for 2 bytes in the summary and the HTML footnote, 501 for 502 in
  the XML footnote, 1001 for 1002 in the plain-text footnote.
\<close>

theorem size_is_character_count:
  "format_response ascii_lower example_fmt_millis example_json_loads example_json_dumps
     (example_response (lit ''text/html'') (accented_body 0)) False
     = ([Blank,
        Panel (lit ''[orange1]Status:[/orange1] 404 Not Found'' @ [10] @
               lit ''[cyan]Time:[/cyan] 123ms'' @ [10] @
               lit ''[cyan]Size:[/cyan] 1 bytes'')
              (lit ''[bold]Response - DELETE https://api.example.com/users/5[/bold]'')
              (lit ''orange1''),
        Text ([10] @ lit ''[bold]Body:[/bold]''),
        Syntax [233] (lit ''html''),
        Text (lit ''[dim](HTML response truncated, 1 bytes total)[/dim]''),
        Blank], None) \<and>
   spec_utf8_size (accented_body 0) = 2 \<and>
   format_body example_json_loads example_json_dumps
     (example_response (lit ''text/xml'') (accented_body 500))
     = ([Syntax (replicate 500 97) (lit ''xml''),
         Text (lit ''[dim](XML truncated, 501 bytes total)[/dim]'')], None) \<and>
   spec_utf8_size (accented_body 500) = 502 \<and>
   format_body example_json_loads example_json_dumps
     (example_response (lit ''text/plain'') (accented_body 1000))
     = ([Text (replicate 1000 97),
         Text (lit ''[dim]... (1001 bytes total)[/dim]'')], None) \<and>
   spec_utf8_size (accented_body 1000) = 1002"
proof -
  have k: "\<not> str_contains (lit ''application/json'') (lit ''text/html'')"
    "str_contains (lit ''text/html'') (lit ''text/html'')"
    "\<not> str_contains (lit ''application/json'') (lit ''text/xml'')"
    "\<not> str_contains (lit ''text/html'') (lit ''text/xml'')"
    "str_contains (lit ''text/xml'') (lit ''text/xml'')"
    "\<not> str_contains (lit ''application/json'') (lit ''text/plain'')"
    "\<not> str_contains (lit ''text/html'') (lit ''text/plain'')"
    "\<not> str_contains (lit ''application/xml'') (lit ''text/plain'')"
    "\<not> str_contains (lit ''text/xml'') (lit ''text/plain'')"
    by (simp_all add: lit_def)
  have f: "status_code (example_response ct t) = 404"
    "elapsed_time (example_response ct t) = 123 / 1000"
    "request (example_response ct t) = example_request" for ct t
    by (simp_all add: example_response_def)
  have q: "method example_request = lit ''DELETE''"
    "url example_request = lit ''https://api.example.com/users/5''"
    by (simp_all add: example_request_def)
  have g: "get_status_color 404 = lit ''orange1''" "get_status_text 404 = lit ''Not Found''"
    by (simp_all add: get_status_color_def get_status_text_def dict_get_def status_texts_def)
  have u: "spec_utf8_size (accented_body 0) = 2" "spec_utf8_size (accented_body 500) = 502"
    "spec_utf8_size (accented_body 1000) = 1002"
    by (simp_all add: accented_body_def spec_utf8_size_simps spec_utf8_size_replicate_a
        length_utf8_encode_cp)
  have l: "length (accented_body 0) = 1" "length (accented_body 500) = 501"
    "length (accented_body 1000) = 1001"
    by (simp_all add: accented_body_def)
  have t: "take 500 (accented_body 500) = replicate 500 97"
    "take 1000 (accented_body 1000) = replicate 1000 97"
    "split_lines (accented_body 0) = [[233]]"
    by (simp_all add: accented_body_def)
  have b1: "format_body example_json_loads example_json_dumps
              (example_response (lit ''text/html'') (accented_body 0))
            = ([Syntax [233] (lit ''html''),
                Text (lit ''[dim](HTML response truncated, 1 bytes total)[/dim]'')], None)"
    by (simp add: format_body_html example_response_sel k l t size_texts) (simp add: lit_def)
  have b2: "format_body example_json_loads example_json_dumps
              (example_response (lit ''text/xml'') (accented_body 500))
            = ([Syntax (replicate 500 97) (lit ''xml''),
                Text (lit ''[dim](XML truncated, 501 bytes total)[/dim]'')], None)"
    by (simp add: format_body_xml example_response_sel k l t size_texts) (simp add: lit_def)
  have b3: "format_body example_json_loads example_json_dumps
              (example_response (lit ''text/plain'') (accented_body 1000))
            = ([Text (replicate 1000 97),
                Text (lit ''[dim]... (1001 bytes total)[/dim]'')], None)"
    by (simp add: format_body_plain example_response_sel k l t size_texts) (simp add: lit_def)
  have p: "format_response ascii_lower example_fmt_millis example_json_loads example_json_dumps
     (example_response (lit ''text/html'') (accented_body 0)) False
     = ([Blank,
        Panel (lit ''[orange1]Status:[/orange1] 404 Not Found'' @ [10] @
               lit ''[cyan]Time:[/cyan] 123ms'' @ [10] @
               lit ''[cyan]Size:[/cyan] 1 bytes'')
              (lit ''[bold]Response - DELETE https://api.example.com/users/5[/bold]'')
              (lit ''orange1''),
        Text ([10] @ lit ''[bold]Body:[/bold]''),
        Syntax [233] (lit ''html''),
        Text (lit ''[dim](HTML response truncated, 1 bytes total)[/dim]''),
        Blank], None)"
    by (simp add: format_response_def b1 f q g example_response_sel l size_texts)
       (simp add: lit_def)
  show ?thesis
    using p b2 b3 u by simp
qed

end
